theory Spec2Isabelle
  imports Complex_Main
begin

section \<open>Search-space domains and samplers of \<^verbatim>\<open>flaml/tune/sample.py\<close>\<close>

text \<open>
  The module describes hyperparameter search spaces: a \<^emph>\<open>domain\<close> (\<^verbatim>\<open>Float\<close>,
  \<^verbatim>\<open>Integer\<close>, \<^verbatim>\<open>Categorical\<close>) holds bounds or categories and at most one
  attached \<^emph>\<open>sampler\<close>; \<^verbatim>\<open>Domain.sample\<close> delegates to the sampler.

  Conventions of the embedding.
  \<^item> A raised exception is \<open>Inl e\<close>, a normal return is \<open>Inr v\<close>.
  \<^item> A Python float is an exact real number or one of the two infinities (\<open>pyfloat\<close>);
    rounding of binary64 and NaN bounds are outside the model. Of the overflows of
    binary64 the model has the one the library tests for: the range of a uniform draw
    (\<open>range_overflows\<close>). NaN appears only as the sampled value \<open>PyNaN\<close> that a
    quantization step of zero produces.
  \<^item> The pseudorandom generators (\<^verbatim>\<open>numpy.random\<close>, \<^verbatim>\<open>random\<close>) are library code.
    They are modelled by what they compute from an explicit entropy source \<open>rng\<close>, which
    is an argument of every \<open>sample\<close> function.
  \<^item> The argument \<^verbatim>\<open>spec\<close> of the \<^verbatim>\<open>sample\<close> methods is passed along and never read, so
    it is left out.
\<close>

subsection \<open>Errors and values\<close>

datatype error =
    ValueError string
  | AssertionError string
  | AttributeError string
  | TypeError
  | IndexError
  | ZeroDivisionError
  | OverflowError

fun and_then :: "error + 'a \<Rightarrow> ('a \<Rightarrow> error + 'b) \<Rightarrow> error + 'b" where
  "and_then (Inl e) f = Inl e"
| "and_then (Inr x) f = f x"

fun map_err :: "('a \<Rightarrow> error + 'b) \<Rightarrow> 'a list \<Rightarrow> error + 'b list" where
  "map_err f [] = Inr []"
| "map_err f (x # xs) =
     and_then (f x) (\<lambda>y. and_then (map_err f xs) (\<lambda>ys. Inr (y # ys)))"

datatype pyfloat = NegInf | Fin real | PosInf

text \<open>\<^verbatim>\<open>a < b\<close> and \<^verbatim>\<open>a <= b\<close> on floats, and the truth value of a float (\<^verbatim>\<open>not x\<close> holds
  exactly for zero).\<close>

fun pf_less :: "pyfloat \<Rightarrow> pyfloat \<Rightarrow> bool" where
  "pf_less NegInf NegInf = False"
| "pf_less NegInf (Fin b) = True"
| "pf_less NegInf PosInf = True"
| "pf_less (Fin a) NegInf = False"
| "pf_less (Fin a) (Fin b) = (a < b)"
| "pf_less (Fin a) PosInf = True"
| "pf_less PosInf b = False"

definition pf_le :: "pyfloat \<Rightarrow> pyfloat \<Rightarrow> bool" where
  "pf_le a b = (a = b \<or> pf_less a b)"

definition truthy :: "pyfloat \<Rightarrow> bool" where
  "truthy x = (x \<noteq> Fin 0)"

text \<open>The values a \<^verbatim>\<open>sample\<close> call can hand back: Python and numpy integers and floats,
  NaN, strings (as categories), and the \<^verbatim>\<open>RuntimeError\<close> object that \<^verbatim>\<open>Grid.sample\<close>
  builds. A result is a bare value, a numpy array or a Python list.\<close>

datatype pyval =
    PyInt int
  | PyFloat real
  | PyNaN
  | PyStr string
  | PyRuntimeError string

datatype sampled = Scalar pyval | NdArray "pyval list" | PyList "pyval list"


fun elements :: "sampled \<Rightarrow> pyval list" where
  "elements (Scalar v) = [v]"
| "elements (NdArray vs) = vs"
| "elements (PyList vs) = vs"

subsection \<open>Python and numpy primitives\<close>

text \<open>\<^verbatim>\<open>int(x)\<close> truncates towards zero; \<^verbatim>\<open>round(x)\<close> and \<^verbatim>\<open>np.round\<close> round to the nearest
  integer, ties to the even one.\<close>

definition trunc :: "real \<Rightarrow> int" where
  "trunc x = (if 0 \<le> x then \<lfloor>x\<rfloor> else \<lceil>x\<rceil>)"

definition round_half_even :: "real \<Rightarrow> int" where
  "round_half_even x =
     (let f = \<lfloor>x\<rfloor>; r = x - of_int f
      in if r < 1 / 2 then f else if 1 / 2 < r then f + 1
         else if even f then f else f + 1)"

fun py_float :: "pyval \<Rightarrow> error + pyval" where
  "py_float (PyInt i) = Inr (PyFloat (of_int i))"
| "py_float (PyFloat x) = Inr (PyFloat x)"
| "py_float PyNaN = Inr PyNaN"
| "py_float (PyStr s) = Inl (ValueError ''could not convert string to float'')"
| "py_float (PyRuntimeError m) = Inl TypeError"

fun py_int :: "pyval \<Rightarrow> error + pyval" where
  "py_int (PyInt i) = Inr (PyInt i)"
| "py_int (PyFloat x) = Inr (PyInt (trunc x))"
| "py_int PyNaN = Inl (ValueError ''cannot convert float NaN to integer'')"
| "py_int (PyStr s) = Inl (ValueError ''invalid literal for int()'')"
| "py_int (PyRuntimeError m) = Inl TypeError"

text \<open>\<^verbatim>\<open>math.isclose(a, b)\<close> with its defaults \<^verbatim>\<open>rel_tol=1e-09\<close>, \<^verbatim>\<open>abs_tol=0.0\<close>, on finite
  arguments.\<close>

definition rel_tol :: real where
  "rel_tol = 1 / 10 ^ 9"

definition isclose :: "real \<Rightarrow> real \<Rightarrow> bool" where
  "isclose a b =
     (a = b \<or> \<bar>b - a\<bar> \<le> \<bar>rel_tol * b\<bar> \<or> \<bar>b - a\<bar> \<le> \<bar>rel_tol * a\<bar> \<or> \<bar>b - a\<bar> \<le> 0)"

text \<open>The entropy source. \<open>bits g i\<close> is the \<open>i\<close>-th raw integer of the generator and
  \<open>gauss g i\<close> its \<open>i\<close>-th standard normal deviate. A uniform draw in \<open>[0, 1)\<close> is the low
  53 bits of a raw integer over \<open>2 ^ 53\<close>, as both generators compute it.\<close>

record rng =
  bits :: "nat \<Rightarrow> nat"
  gauss :: "nat \<Rightarrow> real"

definition random_double :: "rng \<Rightarrow> nat \<Rightarrow> real" where
  "random_double g i = real (bits g i mod 2 ^ 53) / 2 ^ 53"

text \<open>\<^verbatim>\<open>np.random.uniform(low, high, size)\<close>: each element is
  \<^verbatim>\<open>low + (high - low) * u\<close> with \<open>u\<close> in \<open>[0, 1)\<close>. The library computes the range
  \<^verbatim>\<open>high - low\<close> in binary64 first and raises \<^verbatim>\<open>OverflowError\<close> when it is not finite:
  when a bound is infinite, and when the difference of two finite bounds rounds to an
  infinity. The largest finite binary64 value is \<open>2 ^ 1024 - 2 ^ 971\<close>, and a difference
  rounds to an infinity exactly when its magnitude reaches the midpoint
  \<open>2 ^ 1024 - 2 ^ 970\<close> between that value and \<open>2 ^ 1024\<close>.\<close>

definition range_overflows :: "real \<Rightarrow> bool" where
  "range_overflows r = (2 ^ 1024 - 2 ^ 970 \<le> \<bar>r\<bar>)"

definition np_random_uniform :: "pyfloat \<Rightarrow> pyfloat \<Rightarrow> int \<Rightarrow> rng \<Rightarrow> error + real list" where
  "np_random_uniform low high n g =
     (case (low, high) of
        (Fin a, Fin b) \<Rightarrow>
          if range_overflows (b - a) then Inl OverflowError
          else if n < 0 then Inl (ValueError ''negative dimensions are not allowed'')
          else Inr (map (\<lambda>i. a + (b - a) * random_double g i) [0..<nat n])
      | _ \<Rightarrow> Inl OverflowError)"

text \<open>\<^verbatim>\<open>np.random.normal(loc, scale, size)\<close>.\<close>

definition np_random_normal :: "real \<Rightarrow> real \<Rightarrow> int \<Rightarrow> rng \<Rightarrow> error + real list" where
  "np_random_normal loc scale n g =
     (if scale < 0 then Inl (ValueError ''scale < 0'')
      else if n < 0 then Inl (ValueError ''negative dimensions are not allowed'')
      else Inr (map (\<lambda>i. loc + scale * gauss g i) [0..<nat n]))"

text \<open>\<^verbatim>\<open>np.random.randint(low, high, size)\<close> with the default 64-bit integer type: an
  empty request returns at once; the bounds are turned into integers with \<^verbatim>\<open>int()\<close>;
  the draw is from the half-open range \<open>[low, high)\<close>.\<close>

fun int_of_pyfloat :: "pyfloat \<Rightarrow> error + int" where
  "int_of_pyfloat (Fin x) = Inr (trunc x)"
| "int_of_pyfloat NegInf = Inl OverflowError"
| "int_of_pyfloat PosInf = Inl OverflowError"

definition np_random_randint :: "pyfloat \<Rightarrow> pyfloat \<Rightarrow> int \<Rightarrow> rng \<Rightarrow> error + int list" where
  "np_random_randint low high n g =
     (if n = 0 then Inr []
      else and_then (int_of_pyfloat low) (\<lambda>lo. and_then (int_of_pyfloat high) (\<lambda>hi.
        if lo < - (2 ^ 63) then Inl (ValueError ''low is out of bounds for int64'')
        else if 2 ^ 63 - 1 < hi - 1 then Inl (ValueError ''high is out of bounds for int64'')
        else if hi - 1 < lo then Inl (ValueError ''low >= high'')
        else if n < 0 then Inl (ValueError ''negative dimensions are not allowed'')
        else Inr (map (\<lambda>i. lo + int (bits g i mod nat (hi - lo))) [0..<nat n]))))"

text \<open>\<^verbatim>\<open>random.choices(population, k=size)\<close>: \<^verbatim>\<open>population[floor(random() * n)]\<close>,
  \<open>k\<close> times.\<close>

definition random_choices :: "'a list \<Rightarrow> int \<Rightarrow> rng \<Rightarrow> error + 'a list" where
  "random_choices population k g =
     (if k \<le> 0 then Inr []
      else if population = [] then Inl IndexError
      else Inr (map (\<lambda>i. population ! nat \<lfloor>random_double g i * real (length population)\<rfloor>)
                  [0..<nat k]))"

subsection \<open>Samplers and domains\<close>

text \<open>One constructor per sampler class that has a \<^verbatim>\<open>sample\<close> method of its own: the
  classes nested in \<^verbatim>\<open>Float\<close>, \<^verbatim>\<open>Integer\<close> and \<^verbatim>\<open>Categorical\<close>, \<^verbatim>\<open>Grid\<close>, and
  \<^verbatim>\<open>Quantized\<close>, which holds the sampler it wraps and the step \<open>q\<close>. A sampler object is
  never changed after its construction, so it is a value.\<close>

datatype sampler =
    Float_Uniform
  | Float_LogUniform real
  | Float_Normal real real
  | Integer_Uniform
  | Integer_LogUniform real
  | Categorical_Uniform
  | Grid
  | Quantized sampler real

text \<open>The constructors \<^verbatim>\<open>LogUniform.__init__\<close>, \<^verbatim>\<open>Normal.__init__\<close> and
  \<^verbatim>\<open>Quantized.__init__\<close> with their assertions (a sampler instance is always true).\<close>

definition LogUniform_init :: "(real \<Rightarrow> sampler) \<Rightarrow> real \<Rightarrow> error + sampler" where
  "LogUniform_init cls base =
     (if 0 < base then Inr (cls base)
      else Inl (AssertionError ''Base has to be strictly greater than 0''))"

definition Normal_init :: "real \<Rightarrow> real \<Rightarrow> error + sampler" where
  "Normal_init mean sd =
     (if 0 < sd then Inr (Float_Normal mean sd)
      else Inl (AssertionError ''SD has to be strictly greater than 0''))"

definition Quantized_init :: "sampler \<Rightarrow> real \<Rightarrow> error + sampler" where
  "Quantized_init s q = Inr (Quantized s q)"

text \<open>A domain object: its class, its bounds or categories, and the attribute
  \<^verbatim>\<open>sampler\<close> (\<open>None\<close> until one is attached).\<close>

datatype domain =
    Float pyfloat pyfloat "sampler option"
  | Integer int int "sampler option"
  | Categorical "pyval list" "sampler option"

definition Float_init :: "pyfloat option \<Rightarrow> pyfloat option \<Rightarrow> domain" where
  "Float_init lower upper =
     Float (case lower of Some l \<Rightarrow> l | None \<Rightarrow> NegInf)
           (case upper of Some u \<Rightarrow> u | None \<Rightarrow> PosInf) None"

definition Integer_init :: "int \<Rightarrow> int \<Rightarrow> domain" where
  "Integer_init lower upper = Integer lower upper None"

definition Categorical_init :: "pyval list \<Rightarrow> domain" where
  "Categorical_init categories = Categorical categories None"

text \<open>Attribute reads. \<^verbatim>\<open>domain.lower\<close> and \<^verbatim>\<open>domain.upper\<close> exist on \<^verbatim>\<open>Float\<close> and
  \<^verbatim>\<open>Integer\<close> objects, \<^verbatim>\<open>domain.categories\<close> on \<^verbatim>\<open>Categorical\<close> ones.\<close>

fun sampler_of :: "domain \<Rightarrow> sampler option" where
  "sampler_of (Float l u s) = s"
| "sampler_of (Integer l u s) = s"
| "sampler_of (Categorical cs s) = s"

fun with_sampler :: "domain \<Rightarrow> sampler option \<Rightarrow> domain" where
  "with_sampler (Float l u s) s' = Float l u s'"
| "with_sampler (Integer l u s) s' = Integer l u s'"
| "with_sampler (Categorical cs s) s' = Categorical cs s'"

fun lower_attr :: "domain \<Rightarrow> error + pyfloat" where
  "lower_attr (Float l u s) = Inr l"
| "lower_attr (Integer l u s) = Inr (Fin (of_int l))"
| "lower_attr (Categorical cs s) = Inl (AttributeError ''lower'')"

fun upper_attr :: "domain \<Rightarrow> error + pyfloat" where
  "upper_attr (Float l u s) = Inr u"
| "upper_attr (Integer l u s) = Inr (Fin (of_int u))"
| "upper_attr (Categorical cs s) = Inl (AttributeError ''upper'')"

fun categories_attr :: "domain \<Rightarrow> error + pyval list" where
  "categories_attr (Categorical cs s) = Inr cs"
| "categories_attr (Float l u s) = Inl (AttributeError ''categories'')"
| "categories_attr (Integer l u s) = Inl (AttributeError ''categories'')"

text \<open>\<^verbatim>\<open>cast\<close>: the identity in \<^verbatim>\<open>Domain\<close> (inherited by \<^verbatim>\<open>Categorical\<close>), \<^verbatim>\<open>float(value)\<close>
  in \<^verbatim>\<open>Float\<close>, \<^verbatim>\<open>int(value)\<close> in \<^verbatim>\<open>Integer\<close>.\<close>

fun cast :: "domain \<Rightarrow> pyval \<Rightarrow> error + pyval" where
  "cast (Float l u s) v = py_float v"
| "cast (Integer l u s) v = py_int v"
| "cast (Categorical cs s) v = Inr v"

fun default_sampler_cls :: "domain \<Rightarrow> sampler" where
  "default_sampler_cls (Float l u s) = Float_Uniform"
| "default_sampler_cls (Integer l u s) = Integer_Uniform"
| "default_sampler_cls (Categorical cs s) = Categorical_Uniform"

subsection \<open>\<^verbatim>\<open>Domain.set_sampler\<close>, \<^verbatim>\<open>Domain.get_sampler\<close>\<close>

text \<open>\<^verbatim>\<open>set_sampler\<close> assigns the attribute of \<open>self\<close>; the model returns the object as
  it is after the call.\<close>

definition one_sampler_error :: error where
  "one_sampler_error = ValueError ''You can only choose one sampler for parameter domains.''"

definition set_sampler :: "domain \<Rightarrow> sampler \<Rightarrow> bool \<Rightarrow> error + domain" where
  "set_sampler self s allow_override =
     (if sampler_of self \<noteq> None \<and> \<not> allow_override
      then Inl one_sampler_error
      else Inr (with_sampler self (Some s)))"

definition get_sampler :: "domain \<Rightarrow> sampler" where
  "get_sampler self =
     (case sampler_of self of Some s \<Rightarrow> s | None \<Rightarrow> default_sampler_cls self)"

definition is_grid :: "domain \<Rightarrow> bool" where
  "is_grid self = (sampler_of self = Some Grid)"

subsection \<open>The \<^verbatim>\<open>sample\<close> methods of the sampler classes\<close>

text \<open>Every nested sampler ends with
  \<^verbatim>\<open>return items if len(items) > 1 else domain.cast(items[0])\<close>; \<open>seq\<close> says whether
  \<open>items\<close> is a numpy array or a Python list.\<close>

definition items_or_first :: "(pyval list \<Rightarrow> sampled) \<Rightarrow> domain \<Rightarrow> pyval list \<Rightarrow> error + sampled" where
  "items_or_first seq d items =
     (if 1 < length items then Inr (seq items)
      else (case items of
              [] \<Rightarrow> Inl IndexError
            | x # _ \<Rightarrow> and_then (cast d x) (\<lambda>v. Inr (Scalar v))))"

text \<open>\<^verbatim>\<open>Float._Uniform.sample\<close>.\<close>

definition Float_Uniform_sample :: "domain \<Rightarrow> rng \<Rightarrow> int \<Rightarrow> error + sampled" where
  "Float_Uniform_sample d g n =
     and_then (lower_attr d) (\<lambda>l.
       if \<not> pf_less NegInf l then Inl (AssertionError ''Uniform needs a lower bound'')
       else and_then (upper_attr d) (\<lambda>u.
         if \<not> pf_less u PosInf then Inl (AssertionError ''Uniform needs a upper bound'')
         else and_then (np_random_uniform l u n g) (\<lambda>items.
           items_or_first NdArray d (map PyFloat items))))"

text \<open>The log-space draw shared by \<^verbatim>\<open>Float._LogUniform.sample\<close> and
  \<^verbatim>\<open>Integer._LogUniform.sample\<close>:
  \<^verbatim>\<open>self.base**(np.random.uniform(logmin, logmax, size=size))\<close> with
  \<^verbatim>\<open>logmin = np.log(domain.lower) / np.log(self.base)\<close> and \<open>logmax\<close> alike. The
  constructor admits a positive base only. With base 1 the quotients are not finite and
  the draw raises; the same holds for an infinite lower bound. (A base below 0 makes
  \<^verbatim>\<open>np.log\<close> give NaN, and base 0 gives the range \<open>[0, 0]\<close> and \<open>0 ** 0 = 1\<close>.)\<close>

definition log_draw :: "real \<Rightarrow> pyfloat \<Rightarrow> pyfloat \<Rightarrow> int \<Rightarrow> rng \<Rightarrow> error + real list" where
  "log_draw base l u n g =
     (case (l, u) of
        (Fin a, Fin b) \<Rightarrow>
          if base < 0 \<or> base = 1 then Inl OverflowError
          else if base = 0 then
            and_then (np_random_uniform (Fin 0) (Fin 0) n g) (\<lambda>xs. Inr (map (\<lambda>x. 1) xs))
          else
            and_then (np_random_uniform (Fin (ln a / ln base)) (Fin (ln b / ln base)) n g)
              (\<lambda>xs. Inr (map (\<lambda>x. base powr x) xs))
      | _ \<Rightarrow> Inl OverflowError)"

definition Float_LogUniform_sample :: "real \<Rightarrow> domain \<Rightarrow> rng \<Rightarrow> int \<Rightarrow> error + sampled" where
  "Float_LogUniform_sample base d g n =
     and_then (lower_attr d) (\<lambda>l.
       if \<not> pf_less (Fin 0) l
       then Inl (AssertionError ''LogUniform needs a lower bound greater than 0'')
       else and_then (upper_attr d) (\<lambda>u.
         if \<not> (pf_less (Fin 0) u \<and> pf_less u PosInf)
         then Inl (AssertionError ''LogUniform needs a upper bound greater than 0'')
         else and_then (log_draw base l u n g) (\<lambda>items.
           items_or_first NdArray d (map PyFloat items))))"

text \<open>\<^verbatim>\<open>Float._Normal.sample\<close>. The two assertions test \<^verbatim>\<open>not domain.lower\<close> and
  \<^verbatim>\<open>not domain.upper\<close>, the truth value of the bound.\<close>

definition Float_Normal_sample :: "real \<Rightarrow> real \<Rightarrow> domain \<Rightarrow> rng \<Rightarrow> int \<Rightarrow> error + sampled" where
  "Float_Normal_sample mean sd d g n =
     and_then (lower_attr d) (\<lambda>l.
       if \<not> (\<not> truthy l \<or> l = NegInf)
       then Inl (AssertionError ''Normal sampling does not allow a lower value bound.'')
       else and_then (upper_attr d) (\<lambda>u.
         if \<not> (\<not> truthy u \<or> u = PosInf)
         then Inl (AssertionError ''Normal sampling does not allow a upper value bound.'')
         else and_then (np_random_normal mean sd n g) (\<lambda>items.
           items_or_first NdArray d (map PyFloat items))))"

text \<open>\<^verbatim>\<open>Integer._Uniform.sample\<close>.\<close>

definition Integer_Uniform_sample :: "domain \<Rightarrow> rng \<Rightarrow> int \<Rightarrow> error + sampled" where
  "Integer_Uniform_sample d g n =
     and_then (lower_attr d) (\<lambda>l. and_then (upper_attr d) (\<lambda>u.
       and_then (np_random_randint l u n g) (\<lambda>items.
         items_or_first NdArray d (map PyInt items))))"

text \<open>\<^verbatim>\<open>Integer._LogUniform.sample\<close>; \<^verbatim>\<open>np.round(items).astype(int)\<close> rounds each
  draw.\<close>

definition Integer_LogUniform_sample :: "real \<Rightarrow> domain \<Rightarrow> rng \<Rightarrow> int \<Rightarrow> error + sampled" where
  "Integer_LogUniform_sample base d g n =
     and_then (lower_attr d) (\<lambda>l.
       if \<not> pf_less (Fin 0) l
       then Inl (AssertionError ''LogUniform needs a lower bound greater than 0'')
       else and_then (upper_attr d) (\<lambda>u.
         if \<not> (pf_less (Fin 0) u \<and> pf_less u PosInf)
         then Inl (AssertionError ''LogUniform needs a upper bound greater than 0'')
         else and_then (log_draw base l u n g) (\<lambda>items.
           items_or_first NdArray d (map (\<lambda>x. PyInt (round_half_even x)) items))))"

text \<open>\<^verbatim>\<open>Categorical._Uniform.sample\<close>.\<close>

definition Categorical_Uniform_sample :: "domain \<Rightarrow> rng \<Rightarrow> int \<Rightarrow> error + sampled" where
  "Categorical_Uniform_sample d g n =
     and_then (categories_attr d) (\<lambda>cs.
       and_then (random_choices cs n g) (\<lambda>items. items_or_first PyList d items))"

text \<open>\<^verbatim>\<open>Grid.sample\<close>: the statement is
  \<^verbatim>\<open>return RuntimeError("Do not call `sample()` on grid.")\<close>.\<close>

definition Grid_sample :: "domain \<Rightarrow> rng \<Rightarrow> int \<Rightarrow> error + sampled" where
  "Grid_sample d g n = Inr (Scalar (PyRuntimeError ''Do not call `sample()` on grid.''))"

text \<open>\<^verbatim>\<open>Quantized.sample\<close>, after the wrapped sampler has returned \<open>values\<close>:
  \<^verbatim>\<open>quantized = np.round(np.divide(values, self.q)) * self.q\<close>. On a number the result
  is a numpy float scalar, on an array or list it is an array; a value that is no number
  makes \<^verbatim>\<open>np.divide\<close> raise \<^verbatim>\<open>TypeError\<close>. Division by a step of zero gives an infinity
  or NaN, and the product with zero is NaN.\<close>

definition quantize :: "real \<Rightarrow> real \<Rightarrow> real" where
  "quantize q x = of_int (round_half_even (x / q)) * q"

fun np_divide_round_mul :: "real \<Rightarrow> pyval \<Rightarrow> error + pyval" where
  "np_divide_round_mul q (PyInt i) =
     Inr (if q = 0 then PyNaN else PyFloat (quantize q (of_int i)))"
| "np_divide_round_mul q (PyFloat x) =
     Inr (if q = 0 then PyNaN else PyFloat (quantize q x))"
| "np_divide_round_mul q PyNaN = Inr PyNaN"
| "np_divide_round_mul q (PyStr s) = Inl TypeError"
| "np_divide_round_mul q (PyRuntimeError m) = Inl TypeError"

fun Quantized_post :: "real \<Rightarrow> domain \<Rightarrow> sampled \<Rightarrow> error + sampled" where
  "Quantized_post q d (Scalar v) =
     and_then (np_divide_round_mul q v) (\<lambda>quantized.
       and_then (cast d quantized) (\<lambda>c. Inr (Scalar c)))"
| "Quantized_post q d (NdArray vs) =
     and_then (map_err (np_divide_round_mul q) vs) (\<lambda>quantized. Inr (PyList quantized))"
| "Quantized_post q d (PyList vs) =
     and_then (map_err (np_divide_round_mul q) vs) (\<lambda>quantized. Inr (PyList quantized))"

text \<open>\<open>sample s d g n\<close> is \<^verbatim>\<open>s.sample(d, spec, n)\<close>, dispatched on the class of \<open>s\<close>.\<close>

fun sample :: "sampler \<Rightarrow> domain \<Rightarrow> rng \<Rightarrow> int \<Rightarrow> error + sampled" where
  "sample Float_Uniform d g n = Float_Uniform_sample d g n"
| "sample (Float_LogUniform base) d g n = Float_LogUniform_sample base d g n"
| "sample (Float_Normal mean sd) d g n = Float_Normal_sample mean sd d g n"
| "sample Integer_Uniform d g n = Integer_Uniform_sample d g n"
| "sample (Integer_LogUniform base) d g n = Integer_LogUniform_sample base d g n"
| "sample Categorical_Uniform d g n = Categorical_Uniform_sample d g n"
| "sample Grid d g n = Grid_sample d g n"
| "sample (Quantized s q) d g n = and_then (sample s d g n) (Quantized_post q d)"

text \<open>\<^verbatim>\<open>Domain.sample\<close>.\<close>

definition Domain_sample :: "domain \<Rightarrow> rng \<Rightarrow> int \<Rightarrow> error + sampled" where
  "Domain_sample self g n = sample (get_sampler self) self g n"

subsection \<open>The builder methods\<close>

text \<open>Each builder is: the checks on \<open>self\<close>, then \<^verbatim>\<open>new = copy(self)\<close>,
  \<^verbatim>\<open>new.set_sampler(...)\<close>, \<^verbatim>\<open>return new\<close>. The checks are definitions of their own
  (\<open>Inr ()\<close> when they pass). In this section a builder returns the state of the new
  object; the section on the object store follows the copy and the assignment through
  a store of objects. The sampler argument is constructed before \<^verbatim>\<open>set_sampler\<close> is
  entered.\<close>

definition copy :: "domain \<Rightarrow> domain" where
  "copy self = self"

definition Float_uniform_check :: "domain \<Rightarrow> error + unit" where
  "Float_uniform_check self =
     and_then (lower_attr self) (\<lambda>l.
       if \<not> pf_less NegInf l then Inl (ValueError ''Uniform requires a lower bound.'')
       else and_then (upper_attr self) (\<lambda>u.
         if \<not> pf_less u PosInf then Inl (ValueError ''Uniform requires a upper bound.'')
         else Inr ()))"

definition Float_uniform :: "domain \<Rightarrow> error + domain" where
  "Float_uniform self =
     and_then (Float_uniform_check self) (\<lambda>_.
       set_sampler (copy self) Float_Uniform False)"

definition Float_loguniform_check :: "domain \<Rightarrow> error + unit" where
  "Float_loguniform_check self =
     and_then (lower_attr self) (\<lambda>l.
       if \<not> pf_less (Fin 0) l
       then Inl (ValueError ''LogUniform requires a lower bound greater than 0.'')
       else and_then (upper_attr self) (\<lambda>u.
         if \<not> (pf_less (Fin 0) u \<and> pf_less u PosInf)
         then Inl (ValueError ''LogUniform requires a upper bound greater than 0.'')
         else Inr ()))"

definition Float_loguniform :: "domain \<Rightarrow> real \<Rightarrow> error + domain" where
  "Float_loguniform self base =
     and_then (Float_loguniform_check self) (\<lambda>_.
       and_then (LogUniform_init Float_LogUniform base) (\<lambda>s.
         set_sampler (copy self) s False))"

definition Float_normal :: "domain \<Rightarrow> real \<Rightarrow> real \<Rightarrow> error + domain" where
  "Float_normal self mean sd =
     and_then (Normal_init mean sd) (\<lambda>s. set_sampler (copy self) s False)"

text \<open>\<^verbatim>\<open>Float.quantized\<close>. \<open>divisible b q\<close> is the test
  \<^verbatim>\<open>isclose(b / q, round(b / q))\<close>: the division raises for \<open>q = 0\<close>, and \<^verbatim>\<open>round\<close>
  raises on an infinite quotient.\<close>

fun divisible :: "pyfloat \<Rightarrow> real \<Rightarrow> error + bool" where
  "divisible (Fin b) q =
     (if q = 0 then Inl ZeroDivisionError
      else Inr (isclose (b / q) (of_int (round_half_even (b / q)))))"
| "divisible NegInf q = (if q = 0 then Inl ZeroDivisionError else Inl OverflowError)"
| "divisible PosInf q = (if q = 0 then Inl ZeroDivisionError else Inl OverflowError)"

definition Float_quantized_check :: "domain \<Rightarrow> real \<Rightarrow> error + unit" where
  "Float_quantized_check self q =
     and_then (lower_attr self) (\<lambda>l.
       and_then
         (if pf_less NegInf l
          then and_then (divisible l q) (\<lambda>ok.
                 if \<not> ok
                 then Inl (ValueError ''Your lower variable bound is not divisible by quantization factor.'')
                 else Inr ())
          else Inr ())
         (\<lambda>_. and_then (upper_attr self) (\<lambda>u.
            if pf_less u PosInf
            then and_then (divisible u q) (\<lambda>ok.
                   if \<not> ok
                   then Inl (ValueError ''Your upper variable bound is not divisible by quantization factor.'')
                   else Inr ())
            else Inr ())))"

definition Float_quantized :: "domain \<Rightarrow> real \<Rightarrow> error + domain" where
  "Float_quantized self q =
     and_then (Float_quantized_check self q) (\<lambda>_.
       and_then (Quantized_init (get_sampler (copy self)) q) (\<lambda>s.
         set_sampler (copy self) s True))"

text \<open>The builders of \<^verbatim>\<open>Integer\<close> and \<^verbatim>\<open>Categorical\<close>.\<close>

definition Integer_quantized :: "domain \<Rightarrow> real \<Rightarrow> error + domain" where
  "Integer_quantized self q =
     and_then (Quantized_init (get_sampler (copy self)) q) (\<lambda>s.
       set_sampler (copy self) s True)"

definition Integer_uniform :: "domain \<Rightarrow> error + domain" where
  "Integer_uniform self = set_sampler (copy self) Integer_Uniform False"

definition Integer_loguniform_check :: "domain \<Rightarrow> error + unit" where
  "Integer_loguniform_check self =
     and_then (lower_attr self) (\<lambda>l.
       if \<not> pf_less (Fin 0) l
       then Inl (ValueError ''LogUniform requires a lower bound greater than 0.'')
       else and_then (upper_attr self) (\<lambda>u.
         if \<not> (pf_less (Fin 0) u \<and> pf_less u PosInf)
         then Inl (ValueError ''LogUniform requires a upper bound greater than 0.'')
         else Inr ()))"

definition Integer_loguniform :: "domain \<Rightarrow> real \<Rightarrow> error + domain" where
  "Integer_loguniform self base =
     and_then (Integer_loguniform_check self) (\<lambda>_.
       and_then (LogUniform_init Integer_LogUniform base) (\<lambda>s.
         set_sampler (copy self) s False))"

definition Categorical_uniform :: "domain \<Rightarrow> error + domain" where
  "Categorical_uniform self = set_sampler (copy self) Categorical_Uniform False"

subsection \<open>The module-level constructors\<close>

definition uniform :: "pyfloat option \<Rightarrow> pyfloat option \<Rightarrow> error + domain" where
  "uniform lower upper = Float_uniform (Float_init lower upper)"

definition quniform :: "pyfloat option \<Rightarrow> pyfloat option \<Rightarrow> real \<Rightarrow> error + domain" where
  "quniform lower upper q =
     and_then (Float_uniform (Float_init lower upper)) (\<lambda>d. Float_quantized d q)"

definition loguniform :: "pyfloat option \<Rightarrow> pyfloat option \<Rightarrow> real \<Rightarrow> error + domain" where
  "loguniform lower upper base = Float_loguniform (Float_init lower upper) base"

definition qloguniform :: "pyfloat option \<Rightarrow> pyfloat option \<Rightarrow> real \<Rightarrow> real \<Rightarrow> error + domain" where
  "qloguniform lower upper q base =
     and_then (Float_loguniform (Float_init lower upper) base) (\<lambda>d. Float_quantized d q)"

definition choice :: "pyval list \<Rightarrow> error + domain" where
  "choice categories = Categorical_uniform (Categorical_init categories)"

definition randint :: "int \<Rightarrow> int \<Rightarrow> error + domain" where
  "randint lower upper = Integer_uniform (Integer_init lower upper)"

definition lograndint :: "int \<Rightarrow> int \<Rightarrow> real \<Rightarrow> error + domain" where
  "lograndint lower upper base = Integer_loguniform (Integer_init lower upper) base"

definition qrandint :: "int \<Rightarrow> int \<Rightarrow> real \<Rightarrow> error + domain" where
  "qrandint lower upper q =
     and_then (Integer_uniform (Integer_init lower upper)) (\<lambda>d. Integer_quantized d q)"

definition qlograndint :: "int \<Rightarrow> int \<Rightarrow> real \<Rightarrow> real \<Rightarrow> error + domain" where
  "qlograndint lower upper q base =
     and_then (Integer_loguniform (Integer_init lower upper) base)
       (\<lambda>d. Integer_quantized d q)"

definition randn :: "real \<Rightarrow> real \<Rightarrow> error + domain" where
  "randn mean sd = Float_normal (Float_init None None) mean sd"

definition qrandn :: "real \<Rightarrow> real \<Rightarrow> real \<Rightarrow> error + domain" where
  "qrandn mean sd q =
     and_then (Float_normal (Float_init None None) mean sd) (\<lambda>d. Float_quantized d q)"

subsection \<open>The object store\<close>

text \<open>Python domains are objects reached through references, and \<^verbatim>\<open>set_sampler\<close>
  assigns an attribute in place. To see which object a builder changes, this section
  runs the same methods on a store: a list of object states, a reference being an index
  into it. \<^verbatim>\<open>copy(self)\<close> allocates a new object with the attributes of \<open>self\<close>;
  \<^verbatim>\<open>set_sampler\<close> overwrites the object at the reference it is called on. A store
  computation returns its result, or the exception raised, together with the store
  it leaves.\<close>

type_synonym ref = nat
type_synonym store = "domain list"
type_synonym 'a st = "store \<Rightarrow> (error + 'a) \<times> store"

definition st_return :: "'a \<Rightarrow> 'a st" where
  "st_return x h = (Inr x, h)"

definition st_then :: "'a st \<Rightarrow> ('a \<Rightarrow> 'b st) \<Rightarrow> 'b st" where
  "st_then m f h = (case m h of (Inl e, h') \<Rightarrow> (Inl e, h') | (Inr x, h') \<Rightarrow> f x h')"

text \<open>\<open>st_reading r f\<close> evaluates \<open>f\<close>, which only reads, on the object at \<open>r\<close>.\<close>

definition st_reading :: "ref \<Rightarrow> (domain \<Rightarrow> error + 'a) \<Rightarrow> 'a st" where
  "st_reading r f h = (f (h ! r), h)"

definition st_copy :: "ref \<Rightarrow> ref st" where
  "st_copy self h = (Inr (length h), h @ [copy (h ! self)])"

definition st_set_sampler :: "ref \<Rightarrow> sampler \<Rightarrow> bool \<Rightarrow> unit st" where
  "st_set_sampler self s allow_override h =
     (case set_sampler (h ! self) s allow_override of
        Inl e \<Rightarrow> (Inl e, h)
      | Inr obj \<Rightarrow> (Inr (), h[self := obj]))"

definition Float_uniform_st :: "ref \<Rightarrow> ref st" where
  "Float_uniform_st self =
     st_then (st_reading self Float_uniform_check) (\<lambda>_.
     st_then (st_copy self) (\<lambda>new.
     st_then (st_set_sampler new Float_Uniform False) (\<lambda>_.
     st_return new)))"

definition Float_loguniform_st :: "ref \<Rightarrow> real \<Rightarrow> ref st" where
  "Float_loguniform_st self base =
     st_then (st_reading self Float_loguniform_check) (\<lambda>_.
     st_then (st_copy self) (\<lambda>new.
     st_then (st_reading new (\<lambda>_. LogUniform_init Float_LogUniform base)) (\<lambda>s.
     st_then (st_set_sampler new s False) (\<lambda>_.
     st_return new))))"

definition Float_normal_st :: "ref \<Rightarrow> real \<Rightarrow> real \<Rightarrow> ref st" where
  "Float_normal_st self mean sd =
     st_then (st_copy self) (\<lambda>new.
     st_then (st_reading new (\<lambda>_. Normal_init mean sd)) (\<lambda>s.
     st_then (st_set_sampler new s False) (\<lambda>_.
     st_return new)))"

definition Float_quantized_st :: "ref \<Rightarrow> real \<Rightarrow> ref st" where
  "Float_quantized_st self q =
     st_then (st_reading self (\<lambda>obj. Float_quantized_check obj q)) (\<lambda>_.
     st_then (st_copy self) (\<lambda>new.
     st_then (st_reading new (\<lambda>obj. Quantized_init (get_sampler obj) q)) (\<lambda>s.
     st_then (st_set_sampler new s True) (\<lambda>_.
     st_return new))))"

definition Integer_quantized_st :: "ref \<Rightarrow> real \<Rightarrow> ref st" where
  "Integer_quantized_st self q =
     st_then (st_copy self) (\<lambda>new.
     st_then (st_reading new (\<lambda>obj. Quantized_init (get_sampler obj) q)) (\<lambda>s.
     st_then (st_set_sampler new s True) (\<lambda>_.
     st_return new)))"

definition Integer_uniform_st :: "ref \<Rightarrow> ref st" where
  "Integer_uniform_st self =
     st_then (st_copy self) (\<lambda>new.
     st_then (st_set_sampler new Integer_Uniform False) (\<lambda>_.
     st_return new))"

definition Integer_loguniform_st :: "ref \<Rightarrow> real \<Rightarrow> ref st" where
  "Integer_loguniform_st self base =
     st_then (st_reading self Integer_loguniform_check) (\<lambda>_.
     st_then (st_copy self) (\<lambda>new.
     st_then (st_reading new (\<lambda>_. LogUniform_init Integer_LogUniform base)) (\<lambda>s.
     st_then (st_set_sampler new s False) (\<lambda>_.
     st_return new))))"

definition Categorical_uniform_st :: "ref \<Rightarrow> ref st" where
  "Categorical_uniform_st self =
     st_then (st_copy self) (\<lambda>new.
     st_then (st_set_sampler new Categorical_Uniform False) (\<lambda>_.
     st_return new))"

text \<open>\<^verbatim>\<open>Domain.sample\<close> on the store: \<^verbatim>\<open>get_sampler\<close> and every \<^verbatim>\<open>sample\<close> and \<^verbatim>\<open>cast\<close>
  method read attributes and assign none.\<close>

definition Domain_sample_st :: "ref \<Rightarrow> rng \<Rightarrow> int \<Rightarrow> sampled st" where
  "Domain_sample_st self g n = st_reading self (\<lambda>obj. Domain_sample obj g n)"

section \<open>Properties\<close>

subsection \<open>Auxiliary facts\<close>

lemma sampler_of_with_sampler: "sampler_of (with_sampler d s) = s"
  by (cases d) simp_all

lemma Float_normal_fresh:
  "0 < sd \<Longrightarrow>
   Float_normal (Float l u None) mean sd = Inr (Float l u (Some (Float_Normal mean sd)))"
  by (simp add: Float_normal_def Normal_init_def set_sampler_def copy_def)

lemma Normal_sample_lower_assert:
  "l \<noteq> Fin 0 \<Longrightarrow> l \<noteq> NegInf \<Longrightarrow>
   Domain_sample (Float l u (Some (Float_Normal mean sd))) g n =
     Inl (AssertionError ''Normal sampling does not allow a lower value bound.'')"
  by (simp add: Domain_sample_def get_sampler_def Float_Normal_sample_def truthy_def)

lemma Normal_sample_upper_assert:
  "u \<noteq> Fin 0 \<Longrightarrow> u \<noteq> PosInf \<Longrightarrow>
   \<exists>msg. Domain_sample (Float l u (Some (Float_Normal mean sd))) g n = Inl (AssertionError msg)"
  by (simp add: Domain_sample_def get_sampler_def Float_Normal_sample_def truthy_def)

lemma trunc_of_int [simp]: "trunc (of_int i) = i"
  by (simp add: trunc_def)

lemma random_double_range: "0 \<le> random_double g i \<and> random_double g i < 1"
proof -
  have "bits g i mod 2 ^ 53 < 2 ^ 53" by simp
  then have "real (bits g i mod 2 ^ 53) < 2 ^ 53"
    by (metis of_nat_less_iff of_nat_numeral of_nat_power)
  then show ?thesis by (simp add: random_double_def)
qed

lemma randint_range:
  assumes "np_random_randint (Fin (of_int lo)) (Fin (of_int hi)) n g = Inr xs"
  shows "\<forall>x\<in>set xs. lo \<le> x \<and> x < hi"
proof (cases "n = 0")
  case True
  with assms show ?thesis by (simp add: np_random_randint_def)
next
  case False
  with assms have lt: "lo < hi"
    by (auto simp add: np_random_randint_def split: if_splits)
  from assms False have xs: "xs = map (\<lambda>i. lo + int (bits g i mod nat (hi - lo))) [0..<nat n]"
    by (auto simp add: np_random_randint_def split: if_splits)
  have "\<And>k. int (k mod nat (hi - lo)) < hi - lo"
  proof -
    fix k
    have "0 < nat (hi - lo)" using lt by simp
    then have "k mod nat (hi - lo) < nat (hi - lo)" by simp
    then show "int (k mod nat (hi - lo)) < hi - lo" using lt by linarith
  qed
  then show ?thesis unfolding xs by (auto simp add: add.commute less_diff_eq)
qed

lemma Integer_sample_unfold:
  "Domain_sample (Integer lo hi (Some Integer_Uniform)) g n =
     and_then (np_random_randint (Fin (of_int lo)) (Fin (of_int hi)) n g) (\<lambda>items.
       items_or_first NdArray (Integer lo hi (Some Integer_Uniform)) (map PyInt items))"
  by (simp add: Domain_sample_def get_sampler_def Integer_Uniform_sample_def)

lemma items_or_first_PyInt:
  assumes "items_or_first NdArray (Integer lo hi s) (map PyInt xs) = Inr r"
  shows "set (elements r) \<subseteq> PyInt ` set xs \<and> length (elements r) = length xs"
  using assms
  by (cases xs) (auto simp add: items_or_first_def split: if_splits)

lemma Integer_sample_values:
  assumes "Domain_sample (Integer lo hi (Some Integer_Uniform)) g n = Inr r"
  shows "\<forall>v\<in>set (elements r). \<exists>i. v = PyInt i \<and> lo \<le> i \<and> i < hi"
proof -
  from assms obtain xs where
    xs: "np_random_randint (Fin (of_int lo)) (Fin (of_int hi)) n g = Inr xs" and
    r: "items_or_first NdArray (Integer lo hi (Some Integer_Uniform)) (map PyInt xs) = Inr r"
    unfolding Integer_sample_unfold
    by (cases "np_random_randint (Fin (of_int lo)) (Fin (of_int hi)) n g") auto
  from randint_range [OF xs] items_or_first_PyInt [OF r] show ?thesis by blast
qed

lemma Integer_sample_returns:
  assumes "lo < hi" and "- (2 ^ 63) \<le> lo" and "hi \<le> 2 ^ 63" and "1 \<le> n"
  shows "\<exists>r. Domain_sample (Integer lo hi (Some Integer_Uniform)) g n = Inr r
             \<and> int (length (elements r)) = n"
proof -
  let ?xs = "map (\<lambda>i. lo + int (bits g i mod nat (hi - lo))) [0..<nat n]"
  have xs: "np_random_randint (Fin (of_int lo)) (Fin (of_int hi)) n g = Inr ?xs"
    using assms by (simp add: np_random_randint_def)
  have len: "int (length ?xs) = n" using assms by simp
  show ?thesis
  proof (cases "n = 1")
    case True
    then have "?xs = [lo + int (bits g 0 mod nat (hi - lo))]" by simp
    then show ?thesis
      unfolding Integer_sample_unfold xs using True
      by (simp add: items_or_first_def)
  next
    case False
    with assms have "1 < length ?xs" by simp
    then show ?thesis
      unfolding Integer_sample_unfold xs using len
      by (simp add: items_or_first_def)
  qed
qed

lemma uniform_draw_between:
  assumes "lo \<le> hi"
  shows "lo \<le> lo + (hi - lo) * random_double g i \<and> lo + (hi - lo) * random_double g i \<le> hi"
proof -
  have u: "0 \<le> random_double g i" "random_double g i \<le> 1"
    using random_double_range [of g i] by simp_all
  have d: "0 \<le> hi - lo" using assms by simp
  have "0 \<le> (hi - lo) * random_double g i" using d u by simp
  moreover have "(hi - lo) * random_double g i \<le> (hi - lo) * 1"
    using d u by (intro mult_left_mono) simp_all
  ultimately show ?thesis by simp
qed

lemma small_range [simp]: "\<not> range_overflows 10"
  by (simp add: range_overflows_def)

lemma Float_sample_unfold:
  "Domain_sample (Float (Fin lo) (Fin hi) (Some Float_Uniform)) g n =
     (if range_overflows (hi - lo) then Inl OverflowError
      else if n < 0 then Inl (ValueError ''negative dimensions are not allowed'')
      else items_or_first NdArray (Float (Fin lo) (Fin hi) (Some Float_Uniform))
             (map PyFloat (map (\<lambda>i. lo + (hi - lo) * random_double g i) [0..<nat n])))"
  by (simp add: Domain_sample_def get_sampler_def Float_Uniform_sample_def np_random_uniform_def)

lemma Float_sample_overflow:
  "range_overflows (hi - lo) \<Longrightarrow>
   Domain_sample (Float (Fin lo) (Fin hi) (Some Float_Uniform)) g n = Inl OverflowError"
  by (simp add: Float_sample_unfold)

lemma Float_sample_one:
  "\<not> range_overflows (hi - lo) \<Longrightarrow>
   Domain_sample (Float (Fin lo) (Fin hi) (Some Float_Uniform)) g 1 =
     Inr (Scalar (PyFloat (lo + (hi - lo) * random_double g 0)))"
  by (simp add: Float_sample_unfold items_or_first_def)

lemma Float_sample_many:
  assumes "1 < n" and "\<not> range_overflows (hi - lo)"
  shows "Domain_sample (Float (Fin lo) (Fin hi) (Some Float_Uniform)) g n =
     Inr (NdArray (map PyFloat (map (\<lambda>i. lo + (hi - lo) * random_double g i) [0..<nat n])))"
  using assms by (simp add: Float_sample_unfold items_or_first_def)

lemma round_half_even_cases:
  "round_half_even x = \<lfloor>x\<rfloor> \<or> round_half_even x = \<lfloor>x\<rfloor> + 1"
  by (simp add: round_half_even_def Let_def)

lemma round_half_even_0_4:
  assumes "0 \<le> y" and "y < 4"
  shows "round_half_even y \<in> {0, 1, 2, 3, 4}"
proof -
  have "0 \<le> \<lfloor>y\<rfloor>" using assms by simp
  moreover have "\<lfloor>y\<rfloor> < 4" using assms by (simp add: floor_less_iff)
  ultimately have "\<lfloor>y\<rfloor> = 0 \<or> \<lfloor>y\<rfloor> = 1 \<or> \<lfloor>y\<rfloor> = 2 \<or> \<lfloor>y\<rfloor> = 3" by arith
  then show ?thesis using round_half_even_cases [of y] by auto
qed

lemma quantize_grid:
  assumes "0 \<le> x" and "x < 10"
  shows "quantize (5 / 2) x \<in> {0, 5 / 2, 5, 15 / 2, 10}"
proof -
  have "round_half_even (x / (5 / 2)) \<in> {0, 1, 2, 3, 4}"
    using assms by (intro round_half_even_0_4) simp_all
  then show ?thesis by (auto simp add: quantize_def)
qed

lemma quniform_example:
  "and_then (Float_uniform (Float_init (Some (Fin 0)) (Some (Fin 10))))
     (\<lambda>d. Float_quantized d (5 / 2)) =
   Inr (Float (Fin 0) (Fin 10) (Some (Quantized Float_Uniform (5 / 2))))"
  by (simp add: Float_uniform_def Float_uniform_check_def Float_init_def set_sampler_def
        copy_def Float_quantized_def Float_quantized_check_def Quantized_init_def
        get_sampler_def isclose_def round_half_even_def)

lemma Quantized_Float_sample_one:
  "q \<noteq> 0 \<Longrightarrow> \<not> range_overflows (hi - lo) \<Longrightarrow>
   Domain_sample (Float (Fin lo) (Fin hi) (Some (Quantized Float_Uniform q))) g 1 =
     Inr (Scalar (PyFloat (quantize q (lo + (hi - lo) * random_double g 0))))"
  by (simp add: Domain_sample_def get_sampler_def Float_Uniform_sample_def
        np_random_uniform_def items_or_first_def)




lemma set_sampler_taken:
  "sampler_of d = Some s \<Longrightarrow> set_sampler d s' False = Inl one_sampler_error"
  by (simp add: set_sampler_def)

lemma st_set_sampler_taken:
  "sampler_of (h ! r) = Some s \<Longrightarrow> st_set_sampler r s' False h = (Inl one_sampler_error, h)"
  by (simp add: st_set_sampler_def set_sampler_def)

lemma and_then_taken:
  assumes "sampler_of d = Some s"
  shows "\<exists>e. and_then m (\<lambda>x. set_sampler (copy d) (f x) False) = Inl e"
  using assms by (cases m) (simp_all add: set_sampler_def copy_def)

lemma builders_taken:
  assumes "sampler_of d = Some s"
  shows "\<exists>e. Float_uniform d = Inl e" and "\<exists>e. Float_loguniform d base = Inl e"
    and "\<exists>e. Float_normal d mean sd = Inl e" and "\<exists>e. Integer_uniform d = Inl e"
    and "\<exists>e. Integer_loguniform d base = Inl e" and "\<exists>e. Categorical_uniform d = Inl e"
proof -
  show "\<exists>e. Float_uniform d = Inl e"
    unfolding Float_uniform_def using and_then_taken [OF assms, of _ "\<lambda>_. Float_Uniform"] .
  show "\<exists>e. Float_normal d mean sd = Inl e"
    unfolding Float_normal_def using and_then_taken [OF assms, of _ "\<lambda>s. s"] .
  show "\<exists>e. Integer_uniform d = Inl e" "\<exists>e. Categorical_uniform d = Inl e"
    using assms by (simp_all add: Integer_uniform_def Categorical_uniform_def set_sampler_def copy_def)
  show "\<exists>e. Float_loguniform d base = Inl e"
    unfolding Float_loguniform_def
    using and_then_taken [OF assms, of "LogUniform_init Float_LogUniform base" "\<lambda>s. s"]
    by (cases "Float_loguniform_check d") auto
  show "\<exists>e. Integer_loguniform d base = Inl e"
    unfolding Integer_loguniform_def
    using and_then_taken [OF assms, of "LogUniform_init Integer_LogUniform base" "\<lambda>s. s"]
    by (cases "Integer_loguniform_check d") auto
qed

lemma Float_loguniform_taken:
  assumes "sampler_of d = Some s" and "Float_loguniform_check d = Inr ()" and "0 < base"
  shows "Float_loguniform d base = Inl one_sampler_error"
  using assms by (simp add: Float_loguniform_def LogUniform_init_def set_sampler_def copy_def)

lemma quantized_wraps:
  assumes "sampler_of d = Some s"
  shows "Integer_quantized d q = Inr (with_sampler d (Some (Quantized s q)))"
    and "Float_quantized_check d q = Inr () \<Longrightarrow>
         Float_quantized d q = Inr (with_sampler d (Some (Quantized s q)))"
  using assms
  by (simp_all add: Integer_quantized_def Float_quantized_def Quantized_init_def
        set_sampler_def copy_def get_sampler_def)

lemma st_attach:
  "st_then (st_copy self) (\<lambda>new.
     st_then (st_set_sampler new s ov) (\<lambda>_. st_return new)) h =
   (case set_sampler (h ! self) s ov of
      Inl e \<Rightarrow> (Inl e, h @ [h ! self])
    | Inr obj \<Rightarrow> (Inr (length h), h @ [obj]))"
  by (simp add: st_then_def st_copy_def st_set_sampler_def st_return_def copy_def
        split: sum.splits)

lemma st_attach_made:
  "st_then (st_copy self) (\<lambda>new.
     st_then (st_reading new mk) (\<lambda>s.
     st_then (st_set_sampler new s ov) (\<lambda>_. st_return new))) h =
   (case mk (h ! self) of
      Inl e \<Rightarrow> (Inl e, h @ [h ! self])
    | Inr s \<Rightarrow>
        (case set_sampler (h ! self) s ov of
           Inl e \<Rightarrow> (Inl e, h @ [h ! self])
         | Inr obj \<Rightarrow> (Inr (length h), h @ [obj])))"
  by (simp add: st_then_def st_copy_def st_reading_def st_set_sampler_def st_return_def
        copy_def split: sum.splits)

lemma st_checked:
  "st_then (st_reading self chk) (\<lambda>_. m) h =
   (case chk (h ! self) of Inl e \<Rightarrow> (Inl e, h) | Inr _ \<Rightarrow> m h)"
  by (simp add: st_then_def st_reading_def split: sum.splits)

lemma set_sampler_result:
  "set_sampler d s ov = Inr obj \<Longrightarrow> obj = with_sampler d (Some s)"
  by (simp add: set_sampler_def split: if_splits)












subsection \<open>Sampling a domain whose sampler is \<^verbatim>\<open>Grid\<close>\<close>

text \<open>Claim C1 says that \<^verbatim>\<open>sample\<close> on a domain with a \<^verbatim>\<open>Grid\<close> sampler always raises and
  never returns a value. \<^verbatim>\<open>Grid.sample\<close> builds the \<^verbatim>\<open>RuntimeError\<close> and returns it:
  for every domain carrying \<^verbatim>\<open>Grid\<close>, every entropy and every size, \<^verbatim>\<open>Domain.sample\<close>
  returns normally, and the value returned is the exception object.\<close>

theorem Grid_sample_returns_object:
  "Domain_sample (with_sampler d (Some Grid)) g n =
     Inr (Scalar (PyRuntimeError ''Do not call `sample()` on grid.''))"
  by (simp add: Domain_sample_def get_sampler_def sampler_of_with_sampler Grid_sample_def)

theorem Grid_sample_returns_object_witness:
  "Domain_sample (Float (Fin 0) (Fin 1) (Some Grid)) \<lparr>bits = (\<lambda>i. 0), gauss = (\<lambda>i. 0)\<rparr> 1 =
     Inr (Scalar (PyRuntimeError ''Do not call `sample()` on grid.''))"
  using Grid_sample_returns_object
          [of "Float (Fin 0) (Fin 1) None" "\<lparr>bits = (\<lambda>i. 0), gauss = (\<lambda>i. 0)\<rparr>" 1]
  by simp

subsection \<open>\<^verbatim>\<open>Float.normal\<close> and the bounds\<close>

text \<open>Claim C2 says that \<^verbatim>\<open>normal\<close> on a bounded \<^verbatim>\<open>Float\<close> fails at construction.
  \<^verbatim>\<open>Float(0, 10).normal()\<close> succeeds: it returns the domain with the \<^verbatim>\<open>Normal\<close>
  sampler attached.\<close>

theorem Float_normal_bounded_counterexample:
  "Float_normal (Float_init (Some (Fin 0)) (Some (Fin 10))) 0 1 =
     Inr (Float (Fin 0) (Fin 10) (Some (Float_Normal 0 1)))"
  by (simp add: Float_normal_def Float_init_def Normal_init_def set_sampler_def copy_def)

text \<open>Claim C2, as amended: \<^verbatim>\<open>Float.normal\<close> checks no bound. On a \<^verbatim>\<open>Float\<close> with no
  sampler attached and with \<open>sd > 0\<close> it succeeds whatever the bounds are. The check is
  made by \<^verbatim>\<open>sample\<close>: when the lower bound is neither zero nor \<open>-inf\<close>, or the upper
  bound is neither zero nor \<open>+inf\<close>, sampling the resulting domain fails with an
  assertion error, for every size.\<close>

theorem Float_normal_check_deferred:
  assumes "0 < sd"
  shows "Float_normal (Float l u None) mean sd = Inr (Float l u (Some (Float_Normal mean sd)))
       \<and> ((l \<noteq> Fin 0 \<and> l \<noteq> NegInf) \<or> (u \<noteq> Fin 0 \<and> u \<noteq> PosInf) \<longrightarrow>
            (\<exists>msg. Domain_sample (Float l u (Some (Float_Normal mean sd))) g n =
                      Inl (AssertionError msg)))"
  using assms Float_normal_fresh Normal_sample_lower_assert Normal_sample_upper_assert
  by blast

theorem Float_normal_check_deferred_witness:
  "Float_normal (Float (Fin 0) (Fin 10) None) 0 1 =
     Inr (Float (Fin 0) (Fin 10) (Some (Float_Normal 0 1)))
   \<and> (\<exists>msg. Domain_sample (Float (Fin 0) (Fin 10) (Some (Float_Normal 0 1)))
               \<lparr>bits = (\<lambda>i. 0), gauss = (\<lambda>i. 0)\<rparr> 1 = Inl (AssertionError msg))"
  using Float_normal_check_deferred
          [of 1 "Fin 0" "Fin 10" 0 "\<lparr>bits = (\<lambda>i. 0), gauss = (\<lambda>i. 0)\<rparr>" 1]
  by simp

subsection \<open>\<^verbatim>\<open>Normal\<close> sampling and a bound equal to zero\<close>

text \<open>Claim C10: on a \<^verbatim>\<open>Float\<close> domain carrying a \<^verbatim>\<open>Normal\<close> sampler, a lower bound that is
  \<open>0\<close> (or \<open>-inf\<close>) and an upper bound that is \<open>0\<close> (or \<open>+inf\<close>) pass the assertions of
  \<^verbatim>\<open>Float._Normal.sample\<close>, which test the truth value of the bound:
  \<^verbatim>\<open>sample(size=1)\<close> succeeds and returns the float \<open>mean + sd * z\<close> for the deviate \<open>z\<close>
  drawn. The witness is \<^verbatim>\<open>Float(0, None).normal().sample(size=1)\<close>.\<close>

theorem Normal_sample_zero_bound_passes:
  assumes "0 < sd" and "l = Fin 0 \<or> l = NegInf" and "u = Fin 0 \<or> u = PosInf"
  shows "Domain_sample (Float l u (Some (Float_Normal mean sd))) g 1 =
           Inr (Scalar (PyFloat (mean + sd * gauss g 0)))"
  using assms
  by (auto simp add: Domain_sample_def get_sampler_def Float_Normal_sample_def truthy_def
        np_random_normal_def items_or_first_def)

theorem Normal_sample_zero_bound_passes_witness:
  "and_then (Float_normal (Float_init (Some (Fin 0)) None) 0 1)
     (\<lambda>d. Domain_sample d \<lparr>bits = (\<lambda>i. 0), gauss = (\<lambda>i. 2)\<rparr> 1) = Inr (Scalar (PyFloat 2))"
  using Normal_sample_zero_bound_passes
          [of 1 "Fin 0" PosInf 0 "\<lparr>bits = (\<lambda>i. 0), gauss = (\<lambda>i. 2)\<rparr>"]
  by (simp add: Float_normal_def Float_init_def Normal_init_def set_sampler_def copy_def)

subsection \<open>\<^verbatim>\<open>Integer\<close> uniform sampling is half-open\<close>

text \<open>Claim C4: for \<open>lower < upper\<close>, \<^verbatim>\<open>randint(lower, upper)\<close>, which is
  \<^verbatim>\<open>Integer(lower, upper).uniform()\<close>, is the \<^verbatim>\<open>Integer\<close> domain with its uniform
  sampler; whatever \<^verbatim>\<open>sample\<close> returns on it, for any size and entropy, every value is
  an integer \<open>i\<close> with \<open>lower \<le> i < upper\<close>. The call does return, with as many values as
  asked for, when the bounds fit 64 bits and the size is at least 1.\<close>

theorem Integer_uniform_half_open:
  assumes "lower < upper"
  shows "randint lower upper = Inr (Integer lower upper (Some Integer_Uniform))
       \<and> (\<forall>r. Domain_sample (Integer lower upper (Some Integer_Uniform)) g n = Inr r \<longrightarrow>
              (\<forall>v\<in>set (elements r). \<exists>i. v = PyInt i \<and> lower \<le> i \<and> i < upper))
       \<and> (- (2 ^ 63) \<le> lower \<and> upper \<le> 2 ^ 63 \<and> 1 \<le> n \<longrightarrow>
            (\<exists>r. Domain_sample (Integer lower upper (Some Integer_Uniform)) g n = Inr r
                 \<and> int (length (elements r)) = n))"
proof -
  have "randint lower upper = Inr (Integer lower upper (Some Integer_Uniform))"
    by (simp add: randint_def Integer_uniform_def Integer_init_def set_sampler_def copy_def)
  then show ?thesis
    using Integer_sample_values Integer_sample_returns [OF assms] by blast
qed

theorem Integer_uniform_half_open_witness:
  "randint 1 5 = Inr (Integer 1 5 (Some Integer_Uniform))
   \<and> Domain_sample (Integer 1 5 (Some Integer_Uniform)) \<lparr>bits = (\<lambda>i. i), gauss = (\<lambda>i. 0)\<rparr> 5
       = Inr (NdArray [PyInt 1, PyInt 2, PyInt 3, PyInt 4, PyInt 1])"
  using Integer_uniform_half_open [of 1 5 "\<lparr>bits = (\<lambda>i. i), gauss = (\<lambda>i. 0)\<rparr>" 5]
  by (simp add: Integer_sample_unfold np_random_randint_def items_or_first_def upt_rec trunc_def)

subsection \<open>\<^verbatim>\<open>Float\<close> uniform sampling\<close>

text \<open>Claim C5 says that for every finite \<open>lo \<le> hi\<close> sampling \<^verbatim>\<open>Float(lo, hi).uniform()\<close>
  returns a value. With \<open>lo = - 2 ^ 1023\<close> and \<open>hi = 2 ^ 1023\<close>, both finite binary64
  values, \<^verbatim>\<open>uniform()\<close> accepts the domain and \<^verbatim>\<open>sample(size=1)\<close> raises
  \<^verbatim>\<open>OverflowError\<close>: the range \<open>hi - lo\<close> is not finite in binary64. (The same holds for
  \<^verbatim>\<open>Float(-1e308, 1e308)\<close>.)\<close>

theorem Float_uniform_sample_overflow_counterexample:
  "uniform (Some (Fin (- (2 ^ 1023)))) (Some (Fin (2 ^ 1023))) =
     Inr (Float (Fin (- (2 ^ 1023))) (Fin (2 ^ 1023)) (Some Float_Uniform))
   \<and> Domain_sample (Float (Fin (- (2 ^ 1023))) (Fin (2 ^ 1023)) (Some Float_Uniform))
        \<lparr>bits = (\<lambda>i. 0), gauss = (\<lambda>i. 0)\<rparr> 1 = Inl OverflowError"
proof -
  have "range_overflows (2 ^ 1023 - - (2 ^ 1023))"
    by (simp add: range_overflows_def)
  then have "Domain_sample (Float (Fin (- (2 ^ 1023))) (Fin (2 ^ 1023)) (Some Float_Uniform))
        \<lparr>bits = (\<lambda>i. 0), gauss = (\<lambda>i. 0)\<rparr> 1 = Inl OverflowError"
    by (rule Float_sample_overflow)
  moreover have "uniform (Some (Fin (- (2 ^ 1023)))) (Some (Fin (2 ^ 1023))) =
     Inr (Float (Fin (- (2 ^ 1023))) (Fin (2 ^ 1023)) (Some Float_Uniform))"
    by (simp add: uniform_def Float_uniform_def Float_uniform_check_def Float_init_def
          set_sampler_def copy_def)
  ultimately show ?thesis by (rule conjI [rotated])
qed

text \<open>Claim C5, as amended: for finite \<open>lo \<le> hi\<close>, \<^verbatim>\<open>Float(lo, hi).uniform()\<close> is the
  \<^verbatim>\<open>Float\<close> domain with its uniform sampler. When the range \<open>hi - lo\<close> is finite in
  binary64, that is below \<open>2 ^ 1024 - 2 ^ 970\<close>, \<^verbatim>\<open>sample(size=1)\<close> returns one float \<open>x\<close>
  with \<open>lo \<le> x \<le> hi\<close>, and \<^verbatim>\<open>sample(size=n)\<close> with \<open>n > 1\<close> returns an array of exactly
  \<open>n\<close> floats, each between \<open>lo\<close> and \<open>hi\<close>. When the range is not finite in binary64,
  \<^verbatim>\<open>sample\<close> raises \<^verbatim>\<open>OverflowError\<close> for every size. (The values drawn are exact reals
  here.)\<close>

theorem Float_uniform_sample_in_bounds:
  assumes "lo \<le> hi"
  shows "uniform (Some (Fin lo)) (Some (Fin hi)) = Inr (Float (Fin lo) (Fin hi) (Some Float_Uniform))
       \<and> (hi - lo < 2 ^ 1024 - 2 ^ 970 \<longrightarrow>
            (\<exists>x. Domain_sample (Float (Fin lo) (Fin hi) (Some Float_Uniform)) g 1 =
                   Inr (Scalar (PyFloat x)) \<and> lo \<le> x \<and> x \<le> hi)
          \<and> (1 < n \<longrightarrow>
               (\<exists>xs. Domain_sample (Float (Fin lo) (Fin hi) (Some Float_Uniform)) g n =
                        Inr (NdArray (map PyFloat xs))
                     \<and> int (length xs) = n \<and> (\<forall>x\<in>set xs. lo \<le> x \<and> x \<le> hi))))
       \<and> (2 ^ 1024 - 2 ^ 970 \<le> hi - lo \<longrightarrow>
            Domain_sample (Float (Fin lo) (Fin hi) (Some Float_Uniform)) g n = Inl OverflowError)"
proof (intro conjI impI)
  show "uniform (Some (Fin lo)) (Some (Fin hi)) = Inr (Float (Fin lo) (Fin hi) (Some Float_Uniform))"
    by (simp add: uniform_def Float_uniform_def Float_uniform_check_def Float_init_def
          set_sampler_def copy_def)
next
  assume "hi - lo < 2 ^ 1024 - 2 ^ 970"
  then have fin: "\<not> range_overflows (hi - lo)"
    using assms by (simp add: range_overflows_def)
  show "\<exists>x. Domain_sample (Float (Fin lo) (Fin hi) (Some Float_Uniform)) g 1 =
              Inr (Scalar (PyFloat x)) \<and> lo \<le> x \<and> x \<le> hi"
    using uniform_draw_between [OF assms, of g 0] by (simp add: Float_sample_one [OF fin])
next
  assume "hi - lo < 2 ^ 1024 - 2 ^ 970" and n: "1 < n"
  then have fin: "\<not> range_overflows (hi - lo)"
    using assms by (simp add: range_overflows_def)
  let ?xs = "map (\<lambda>i. lo + (hi - lo) * random_double g i) [0..<nat n]"
  have "int (length ?xs) = n" using n by simp
  moreover have "\<forall>x\<in>set ?xs. lo \<le> x \<and> x \<le> hi"
    using uniform_draw_between [OF assms] by auto
  ultimately show "\<exists>xs. Domain_sample (Float (Fin lo) (Fin hi) (Some Float_Uniform)) g n =
                     Inr (NdArray (map PyFloat xs))
                  \<and> int (length xs) = n \<and> (\<forall>x\<in>set xs. lo \<le> x \<and> x \<le> hi)"
    using Float_sample_many [OF n fin] by blast
next
  assume "2 ^ 1024 - 2 ^ 970 \<le> hi - lo"
  then have "range_overflows (hi - lo)"
    using assms by (simp add: range_overflows_def)
  then show "Domain_sample (Float (Fin lo) (Fin hi) (Some Float_Uniform)) g n = Inl OverflowError"
    by (rule Float_sample_overflow)
qed

theorem Float_uniform_sample_in_bounds_witness:
  "uniform (Some (Fin 0)) (Some (Fin 10)) = Inr (Float (Fin 0) (Fin 10) (Some Float_Uniform))
   \<and> Domain_sample (Float (Fin 0) (Fin 10) (Some Float_Uniform))
        \<lparr>bits = (\<lambda>i. 2 ^ 52), gauss = (\<lambda>i. 0)\<rparr> 1 = Inr (Scalar (PyFloat 5))
   \<and> Domain_sample (Float (Fin 0) (Fin 10) (Some Float_Uniform))
        \<lparr>bits = (\<lambda>i. 2 ^ 52), gauss = (\<lambda>i. 0)\<rparr> 2 = Inr (NdArray [PyFloat 5, PyFloat 5])"
  using Float_uniform_sample_in_bounds [of 0 10 "\<lparr>bits = (\<lambda>i. 2 ^ 52), gauss = (\<lambda>i. 0)\<rparr>" 2]
  by (simp add: Float_sample_one Float_sample_many random_double_def upt_rec)

subsection \<open>Quantized uniform sampling stays on the grid\<close>

text \<open>Claim C6: \<^verbatim>\<open>Float(0, 10).uniform().quantized(2.5).sample(size=1)\<close> returns, for
  every entropy, a float in \<open>{0, 2.5, 5, 7.5, 10}\<close>.\<close>

theorem quantized_uniform_on_grid:
  "\<exists>x. and_then (and_then (Float_uniform (Float_init (Some (Fin 0)) (Some (Fin 10))))
                    (\<lambda>d. Float_quantized d (5 / 2)))
           (\<lambda>d. Domain_sample d g 1) = Inr (Scalar (PyFloat x))
        \<and> x \<in> {0, 5 / 2, 5, 15 / 2, 10}"
proof -
  let ?x = "0 + (10 - 0) * random_double g 0"
  have "0 \<le> ?x" "?x < 10" using random_double_range [of g 0] by simp_all
  then have "quantize (5 / 2) ?x \<in> {0, 5 / 2, 5, 15 / 2, 10}" by (rule quantize_grid)
  then show ?thesis
    unfolding quniform_example by (simp add: Quantized_Float_sample_one)
qed

theorem quantized_uniform_on_grid_witness:
  "and_then (and_then (Float_uniform (Float_init (Some (Fin 0)) (Some (Fin 10))))
                    (\<lambda>d. Float_quantized d (5 / 2)))
           (\<lambda>d. Domain_sample d \<lparr>bits = (\<lambda>i. 2 ^ 52), gauss = (\<lambda>i. 0)\<rparr> 1) = Inr (Scalar (PyFloat 5))"
  using quantized_uniform_on_grid [of "\<lparr>bits = (\<lambda>i. 2 ^ 52), gauss = (\<lambda>i. 0)\<rparr>"]
  unfolding quniform_example
  by (simp add: Quantized_Float_sample_one random_double_def quantize_def round_half_even_def)

subsection \<open>The divisibility check of \<^verbatim>\<open>Float.quantized\<close>\<close>



subsection \<open>One sampler per domain\<close>

text \<open>Claim C8: on a domain \<open>d\<close> that already has a sampler \<open>s\<close>, \<^verbatim>\<open>set_sampler\<close> without
  the override flag raises the one-sampler \<^verbatim>\<open>ValueError\<close>, and on the store it leaves
  every object, so the sampler of \<open>d\<close>, as it was. Hence every builder that attaches
  without the flag (\<^verbatim>\<open>uniform\<close>, \<^verbatim>\<open>loguniform\<close>, \<^verbatim>\<open>normal\<close>) fails on \<open>d\<close>; \<^verbatim>\<open>loguniform\<close>
  fails with that very error when its own checks pass. \<^verbatim>\<open>quantized\<close> passes the flag:
  it succeeds and the new sampler is \<^verbatim>\<open>Quantized\<close> wrapped around \<open>s\<close>.\<close>

theorem second_sampler_rejected:
  assumes "sampler_of d = Some s"
  shows "set_sampler d s' False = Inl one_sampler_error
       \<and> (h ! r = d \<longrightarrow> st_set_sampler r s' False h = (Inl one_sampler_error, h))
       \<and> (\<exists>e. Float_uniform d = Inl e) \<and> (\<exists>e. Float_loguniform d base = Inl e)
       \<and> (\<exists>e. Float_normal d mean sd = Inl e) \<and> (\<exists>e. Integer_uniform d = Inl e)
       \<and> (\<exists>e. Integer_loguniform d base = Inl e) \<and> (\<exists>e. Categorical_uniform d = Inl e)
       \<and> (Float_loguniform_check d = Inr () \<and> 0 < base \<longrightarrow>
            Float_loguniform d base = Inl one_sampler_error)
       \<and> (Float_quantized_check d q = Inr () \<longrightarrow>
            Float_quantized d q = Inr (with_sampler d (Some (Quantized s q))))
       \<and> Integer_quantized d q = Inr (with_sampler d (Some (Quantized s q)))"
  using set_sampler_taken [OF assms] st_set_sampler_taken [of h r s s'] assms
        builders_taken [OF assms] Float_loguniform_taken [OF assms]
        quantized_wraps [OF assms]
  by blast

theorem second_sampler_rejected_witness:
  "Float_uniform (Float_init (Some (Fin 1)) (Some (Fin 10))) =
     Inr (Float (Fin 1) (Fin 10) (Some Float_Uniform))
   \<and> Float_loguniform (Float (Fin 1) (Fin 10) (Some Float_Uniform)) 10 = Inl one_sampler_error
   \<and> st_set_sampler 0 (Float_LogUniform 10) False [Float (Fin 1) (Fin 10) (Some Float_Uniform)] =
       (Inl one_sampler_error, [Float (Fin 1) (Fin 10) (Some Float_Uniform)])
   \<and> Float_quantized (Float (Fin 1) (Fin 10) (Some Float_Uniform)) (1 / 2) =
       Inr (Float (Fin 1) (Fin 10) (Some (Quantized Float_Uniform (1 / 2))))"
proof -
  have chk: "Float_loguniform_check (Float (Fin 1) (Fin 10) (Some Float_Uniform)) = Inr ()"
    by (simp add: Float_loguniform_check_def)
  have qchk: "Float_quantized_check (Float (Fin 1) (Fin 10) (Some Float_Uniform)) (1 / 2) = Inr ()"
    by (simp add: Float_quantized_check_def isclose_def round_half_even_def)
  have "Float_uniform (Float_init (Some (Fin 1)) (Some (Fin 10))) =
     Inr (Float (Fin 1) (Fin 10) (Some Float_Uniform))"
    by (simp add: Float_uniform_def Float_uniform_check_def Float_init_def set_sampler_def copy_def)
  then show ?thesis
    using second_sampler_rejected
            [of "Float (Fin 1) (Fin 10) (Some Float_Uniform)" Float_Uniform "Float_LogUniform 10"
                "[Float (Fin 1) (Fin 10) (Some Float_Uniform)]" 0 10 0 1 "1 / 2"]
          chk qchk
    by simp
qed

subsection \<open>Builders copy, sampling reads\<close>

text \<open>Claim C9, on the object store: for a receiver \<open>self\<close> of the store \<open>h\<close>, each of the
  builders (\<^verbatim>\<open>uniform\<close>, \<^verbatim>\<open>loguniform\<close>, \<^verbatim>\<open>normal\<close>, \<^verbatim>\<open>quantized\<close> of \<^verbatim>\<open>Float\<close>, and those
  of \<^verbatim>\<open>Integer\<close> and \<^verbatim>\<open>Categorical\<close>) leaves every object of \<open>h\<close> as it was, the receiver
  with its bounds, categories and sampler included. When the builder succeeds it returns
  a reference to a new object, which is the receiver's state with a sampler attached;
  when it fails it raises what the builder raises on the receiver's state.
  \<^verbatim>\<open>Domain.sample\<close> returns the store unchanged.\<close>

theorem builders_leave_receiver_unchanged:
  assumes "self < length h"
  shows "(\<forall>(run, res) \<in>
            {(Float_uniform_st self h, Float_uniform (h ! self)),
             (Float_loguniform_st self base h, Float_loguniform (h ! self) base),
             (Float_normal_st self mean sd h, Float_normal (h ! self) mean sd),
             (Float_quantized_st self q h, Float_quantized (h ! self) q),
             (Integer_uniform_st self h, Integer_uniform (h ! self)),
             (Integer_loguniform_st self base h, Integer_loguniform (h ! self) base),
             (Integer_quantized_st self q h, Integer_quantized (h ! self) q),
             (Categorical_uniform_st self h, Categorical_uniform (h ! self))}.
          take (length h) (snd run) = h \<and> snd run ! self = h ! self
          \<and> (case res of
                Inl e \<Rightarrow> fst run = Inl e
              | Inr obj \<Rightarrow> run = (Inr (length h), h @ [obj])
                            \<and> (\<exists>s. obj = with_sampler (h ! self) (Some s))))
       \<and> Domain_sample_st self g n h = (Domain_sample (h ! self) g n, h)"
proof -
  let ?frame = "\<lambda>(run :: (error + ref) \<times> store, res :: error + domain).
          take (length h) (snd run) = h \<and> snd run ! self = h ! self
          \<and> (case res of
                Inl e \<Rightarrow> fst run = Inl e
              | Inr obj \<Rightarrow> run = (Inr (length h), h @ [obj])
                            \<and> (\<exists>s. obj = with_sampler (h ! self) (Some s)))"
  have 1: "?frame (Float_uniform_st self h, Float_uniform (h ! self))"
    using assms
    by (auto simp add: Float_uniform_st_def Float_uniform_def st_checked st_attach
          copy_def nth_append dest: set_sampler_result split: sum.splits)
  have 2: "?frame (Float_loguniform_st self base h, Float_loguniform (h ! self) base)"
    using assms
    by (auto simp add: Float_loguniform_st_def Float_loguniform_def st_checked
          st_attach_made copy_def nth_append dest: set_sampler_result split: sum.splits)
  have 3: "?frame (Float_normal_st self mean sd h, Float_normal (h ! self) mean sd)"
    using assms
    by (auto simp add: Float_normal_st_def Float_normal_def st_checked
          st_attach_made copy_def nth_append dest: set_sampler_result split: sum.splits)
  have 4: "?frame (Float_quantized_st self q h, Float_quantized (h ! self) q)"
    using assms
    by (auto simp add: Float_quantized_st_def Float_quantized_def st_checked
          st_attach_made copy_def nth_append dest: set_sampler_result split: sum.splits)
  have 5: "?frame (Integer_uniform_st self h, Integer_uniform (h ! self))"
    using assms
    by (auto simp add: Integer_uniform_st_def Integer_uniform_def st_checked st_attach
          copy_def nth_append dest: set_sampler_result split: sum.splits)
  have 6: "?frame (Integer_loguniform_st self base h, Integer_loguniform (h ! self) base)"
    using assms
    by (auto simp add: Integer_loguniform_st_def Integer_loguniform_def st_checked
          st_attach_made copy_def nth_append dest: set_sampler_result split: sum.splits)
  have 7: "?frame (Integer_quantized_st self q h, Integer_quantized (h ! self) q)"
    using assms
    by (auto simp add: Integer_quantized_st_def Integer_quantized_def st_checked
          st_attach_made copy_def nth_append dest: set_sampler_result split: sum.splits)
  have 8: "?frame (Categorical_uniform_st self h, Categorical_uniform (h ! self))"
    using assms
    by (auto simp add: Categorical_uniform_st_def Categorical_uniform_def st_checked
          st_attach copy_def nth_append dest: set_sampler_result split: sum.splits)
  have 9: "Domain_sample_st self g n h = (Domain_sample (h ! self) g n, h)"
    by (simp add: Domain_sample_st_def st_reading_def)
  from 1 2 3 4 5 6 7 8 9 show ?thesis
    by (simp only: ball_simps bex_simps Ball_def insert_iff empty_iff) blast
qed

theorem builders_leave_receiver_unchanged_witness:
  "Float_uniform_st 0 [Float (Fin 0) (Fin 10) None] =
     (Inr 1, [Float (Fin 0) (Fin 10) None, Float (Fin 0) (Fin 10) (Some Float_Uniform)])
   \<and> Float_quantized_st 0 (5 / 2) [Float (Fin 0) (Fin 10) None] =
     (Inr 1, [Float (Fin 0) (Fin 10) None,
              Float (Fin 0) (Fin 10) (Some (Quantized Float_Uniform (5 / 2)))])
   \<and> Domain_sample_st 0 \<lparr>bits = (\<lambda>i. 0), gauss = (\<lambda>i. 0)\<rparr> 1 [Float (Fin 0) (Fin 10) None] =
     (Inr (Scalar (PyFloat 0)), [Float (Fin 0) (Fin 10) None])"
proof -
  have u: "Float_uniform (Float (Fin 0) (Fin 10) None) =
             Inr (Float (Fin 0) (Fin 10) (Some Float_Uniform))"
    by (simp add: Float_uniform_def Float_uniform_check_def set_sampler_def copy_def)
  have q: "Float_quantized (Float (Fin 0) (Fin 10) None) (5 / 2) =
             Inr (Float (Fin 0) (Fin 10) (Some (Quantized Float_Uniform (5 / 2))))"
    by (simp add: Float_quantized_def Float_quantized_check_def Quantized_init_def
          get_sampler_def set_sampler_def copy_def isclose_def round_half_even_def)
  have s: "Domain_sample (Float (Fin 0) (Fin 10) None) \<lparr>bits = (\<lambda>i. 0), gauss = (\<lambda>i. 0)\<rparr> 1 =
             Inr (Scalar (PyFloat 0))"
    by (simp add: Domain_sample_def get_sampler_def Float_Uniform_sample_def
          np_random_uniform_def items_or_first_def random_double_def range_overflows_def)
  note t = builders_leave_receiver_unchanged
            [of 0 "[Float (Fin 0) (Fin 10) None]" 10 0 1 "5 / 2"
                "\<lparr>bits = (\<lambda>i. 0), gauss = (\<lambda>i. 0)\<rparr>" 1]
  have a: "Float_uniform_st 0 [Float (Fin 0) (Fin 10) None] =
     (Inr 1, [Float (Fin 0) (Fin 10) None, Float (Fin 0) (Fin 10) (Some Float_Uniform)])"
    using t by (simp add: u)
  have b: "Float_quantized_st 0 (5 / 2) [Float (Fin 0) (Fin 10) None] =
     (Inr 1, [Float (Fin 0) (Fin 10) None,
              Float (Fin 0) (Fin 10) (Some (Quantized Float_Uniform (5 / 2)))])"
    using t by (simp add: q)
  have c: "Domain_sample_st 0 \<lparr>bits = (\<lambda>i. 0), gauss = (\<lambda>i. 0)\<rparr> 1 [Float (Fin 0) (Fin 10) None] =
     (Inr (Scalar (PyFloat 0)), [Float (Fin 0) (Fin 10) None])"
    using t by (simp add: s)
  from a b c show ?thesis by simp
qed

subsection \<open>The steps of \<^verbatim>\<open>Quantized.sample\<close>\<close>



end
